theory Spec2Isabelle
  imports Complex_Main
begin

section \<open>Data model (src/types.ts)\<close>

text \<open>
  JavaScript numbers are modelled as mathematical reals (rounding, NaN and signed zeros
  are outside the model); array lengths and indices are integers.
\<close>

datatype AppState = ASSEMBLED | SCATTERED | FOCUSED

datatype GestureType = NONE | FIST | OPEN_PALM | PINCH

text \<open>three.js \<open>Vector3\<close>: three numeric components.\<close>

record Vector3 =
  vx :: real
  vy :: real
  vz :: real

datatype ParticleType = SPHERE | CUBE | LIGHT

text \<open>
  \<open>ParticleData\<close>. The \<open>id\<close> string is
  \<open>Math.random().toString(36).substring(2, 9) + Date.now().toString(36)\<close>; its text is not
  modelled, the field \<open>id_draw\<close> keeps the random draw the string is formatted from.
\<close>

record ParticleData =
  id_draw :: real
  initialPos :: Vector3
  scatterPos :: Vector3
  ptype :: ParticleType
  color :: string
  scale :: real

record PhotoData =
  photo_id :: string
  url :: string
  aspectRatio :: real

record Position2 =
  px :: real
  py :: real

record HandControlState =
  gesture :: GestureType
  position :: Position2
  rotation :: real

section \<open>Constants (constants.ts)\<close>

definition PARTICLE_COUNT :: nat where "PARTICLE_COUNT = 3000"
definition TREE_HEIGHT :: real where "TREE_HEIGHT = 10"
definition TREE_RADIUS_BASE :: real where "TREE_RADIUS_BASE = 4.2"
definition SCATTER_BOUNDS :: real where "SCATTER_BOUNDS = 22"

definition COLORS_GOLD :: string where "COLORS_GOLD = ''#FFC800''"
definition COLORS_RED :: string where "COLORS_RED = ''#D90429''"
definition COLORS_GREEN :: string where "COLORS_GREEN = ''#4CA64C''"
definition COLORS_LIGHT :: string where "COLORS_LIGHT = ''#FFFACD''"

section \<open>Layout resolver for particles (utils/geometry.ts, getTargetPosition)\<close>

definition getTargetPosition :: "ParticleData \<Rightarrow> AppState \<Rightarrow> Vector3" where
  "getTargetPosition particle state =
     (if state = SCATTERED \<or> state = FOCUSED then scatterPos particle
      else initialPos particle)"

section \<open>Scene mode state machine (Scene, gesture effect and photo switching)\<close>

text \<open>
  The state the two callbacks of \<open>Scene\<close> read and write: the \<open>appState\<close> prop (written
  through \<open>setAppState\<close>), the \<open>activeIndex\<close> state and the \<open>lastSwitchTime\<close> ref.
\<close>

record SceneState =
  appState :: AppState
  activeIndex :: int
  lastSwitchTime :: real

text \<open>
  The gesture effect. Every condition reads the \<open>appState\<close> of the render the effect
  belongs to; of several \<open>setAppState\<close> calls in one run the last one wins. The first
  \<open>if/else if\<close> chain yields \<open>s1\<close>, the separate trailing \<open>if\<close> yields the result.
\<close>

definition gestureLogic :: "GestureType \<Rightarrow> AppState \<Rightarrow> nat \<Rightarrow> AppState" where
  "gestureLogic g cur photos_length =
     (let s1 =
        (if g = FIST then ASSEMBLED
         else if g = OPEN_PALM then
           (if cur \<noteq> SCATTERED \<and> cur \<noteq> FOCUSED then SCATTERED else cur)
         else if g = PINCH then
           (if cur = SCATTERED \<and> photos_length > 0 then FOCUSED else cur)
         else cur)
      in if g = OPEN_PALM \<and> cur = FOCUSED then SCATTERED else s1)"

definition gestureEffect :: "HandControlState \<Rightarrow> PhotoData list \<Rightarrow> SceneState \<Rightarrow> SceneState" where
  "gestureEffect handState photos st =
     st\<lparr>appState := gestureLogic (gesture handState) (appState st) (length photos)\<rparr>"

text \<open>JavaScript \<open>%\<close> on integers: the remainder takes the sign of the dividend.\<close>

definition js_rem :: "int \<Rightarrow> int \<Rightarrow> int" where
  "js_rem a b = sgn a * (\<bar>a\<bar> mod \<bar>b\<bar>)"

text \<open>
  The photo switching part of the per-frame callback of \<open>Scene\<close>; \<open>time\<close> is
  \<open>state.clock.elapsedTime\<close>. (The camera part of the callback writes only to the orbit
  controls and is not modelled.)
\<close>

definition photoSwitch :: "real \<Rightarrow> HandControlState \<Rightarrow> PhotoData list \<Rightarrow> SceneState \<Rightarrow> SceneState" where
  "photoSwitch time handState photos st =
     (if appState st = FOCUSED \<and> length photos > 1 then
        (if time - lastSwitchTime st > 0.8 then
           (let rot = rotation handState; THRESHOLD = 0.4 in
            if rot < - THRESHOLD then
              st\<lparr>activeIndex := js_rem (activeIndex st - 1 + int (length photos)) (int (length photos)),
                 lastSwitchTime := time\<rparr>
            else if rot > THRESHOLD then
              st\<lparr>activeIndex := js_rem (activeIndex st + 1) (int (length photos)),
                 lastSwitchTime := time\<rparr>
            else st)
         else st)
      else st)"

section \<open>Gesture classifier (HandController)\<close>

text \<open>
  A MediaPipe landmark: normalised image coordinates; the classifier reads only
  \<open>x\<close> and \<open>y\<close>.
\<close>

record Landmark =
  lx :: real
  ly :: real
  lz :: real

text \<open>Reading a property of \<open>undefined\<close> (an array read past the end) throws.\<close>

datatype js_error = TypeError

text \<open>\<open>Math.hypot\<close> of two arguments and the ECMAScript \<open>Math.atan2(y, x)\<close>.\<close>

definition hypot :: "real \<Rightarrow> real \<Rightarrow> real" where
  "hypot a b = sqrt (a\<^sup>2 + b\<^sup>2)"

definition atan2 :: "real \<Rightarrow> real \<Rightarrow> real" where
  "atan2 y x =
     (if 0 < x then arctan (y / x)
      else if x < 0 then (if 0 \<le> y then arctan (y / x) + pi else arctan (y / x) - pi)
      else if 0 < y then pi / 2
      else if y < 0 then - (pi / 2)
      else 0)"

text \<open>The local helper \<open>dist\<close> of \<open>detectGesture\<close>.\<close>

definition dist2 :: "Landmark \<Rightarrow> Landmark \<Rightarrow> real" where
  "dist2 p1 p2 = hypot (lx p1 - lx p2) (ly p1 - ly p2)"

text \<open>
  \<open>detectGesture\<close>. The landmark array is a list; \<open>landmarks[i]\<close> is \<open>undefined\<close> for
  \<open>i \<ge> length\<close>, and the first property read of an undefined element throws. The pinch
  test reads elements 4 and 8; the extension tests read elements 0, 6, 10, 12, 14, 16, 18
  and 20, so they throw exactly when the list has at most 20 elements.
\<close>

definition detectGesture :: "Landmark list \<Rightarrow> js_error + GestureType" where
  "detectGesture landmarks =
     (if length landmarks \<le> 8 then Inl TypeError
      else
        let thumbTip = landmarks ! 4;
            indexTip = landmarks ! 8;
            pinchDist = hypot (lx thumbTip - lx indexTip) (ly thumbTip - ly indexTip)
        in if pinchDist < 0.05 then Inr PINCH
           else if length landmarks \<le> 20 then Inl TypeError
           else
             let middleTip = landmarks ! 12;
                 ringTip = landmarks ! 16;
                 pinkyTip = landmarks ! 20;
                 wrist = landmarks ! 0;
                 isIndexExtended = (dist2 indexTip wrist > dist2 (landmarks ! 6) wrist + 0.05);
                 isMiddleExtended = (dist2 middleTip wrist > dist2 (landmarks ! 10) wrist + 0.05);
                 isRingExtended = (dist2 ringTip wrist > dist2 (landmarks ! 14) wrist + 0.05);
                 isPinkyExtended = (dist2 pinkyTip wrist > dist2 (landmarks ! 18) wrist + 0.05);
                 extendedCount =
                   length (filter (\<lambda>b. b)
                     [isIndexExtended, isMiddleExtended, isRingExtended, isPinkyExtended])
             in if extendedCount \<ge> 3 then Inr OPEN_PALM
                else if extendedCount \<le> 1 then Inr FIST
                else Inr NONE)"

text \<open>
  The \<open>onResults\<close> callback. \<open>active\<close> is the flag the effect's cleanup clears;
  \<open>multiHandLandmarks\<close> is \<open>None\<close> when the field is absent. The result is an error, or
  \<open>None\<close> when the callback returns without calling \<open>onUpdate\<close>, or the state passed
  to \<open>onUpdate\<close>. After \<open>detectGesture\<close> the callback reads elements 9, 5 and 17.
\<close>

definition onResults :: "bool \<Rightarrow> Landmark list list option \<Rightarrow> js_error + HandControlState option" where
  "onResults active multiHandLandmarks =
     (if \<not> active then Inr None
      else case multiHandLandmarks of
        Some (landmarks # other_hands) \<Rightarrow>
          (case detectGesture landmarks of
             Inl e \<Rightarrow> Inl e
           | Inr g \<Rightarrow>
               if length landmarks \<le> 17 then Inl TypeError
               else
                 let palmX = lx (landmarks ! 9);
                     palmY = ly (landmarks ! 9);
                     x = (1 - palmX) * 2 - 1;
                     y = (1 - palmY) * 2 - 1;
                     p5 = landmarks ! 5;
                     p17 = landmarks ! 17;
                     dx = lx p17 - lx p5;
                     dy = ly p17 - ly p5;
                     isRightHand = (dx > 0);
                     rawAngle = atan2 dy \<bar>dx\<bar>;
                     rot = (if isRightHand then rawAngle else - rawAngle)
                 in Inr (Some \<lparr>gesture = g, position = \<lparr>px = x, py = y\<rparr>, rotation = rot\<rparr>))
      | _ \<Rightarrow>
          Inr (Some \<lparr>gesture = NONE, position = \<lparr>px = 0, py = 0\<rparr>, rotation = 0\<rparr>))"

text \<open>Mirroring a landmark set horizontally: \<open>x \<mapsto> 1 - x\<close> on every landmark.\<close>

definition mirror :: "Landmark list \<Rightarrow> Landmark list" where
  "mirror landmarks = map (\<lambda>p. p\<lparr>lx := 1 - lx p\<rparr>) landmarks"

section \<open>Particle generator (utils/geometry.ts, generateParticles)\<close>

text \<open>three.js \<open>MathUtils.lerp(x, y, t)\<close>.\<close>

definition lerp :: "real \<Rightarrow> real \<Rightarrow> real \<Rightarrow> real" where
  "lerp x y t = (1 - t) * x + t * y"

definition FILLER_COUNT :: nat where "FILLER_COUNT = 1200"
definition MAIN_COUNT :: nat where "MAIN_COUNT = PARTICLE_COUNT - FILLER_COUNT"
definition turns :: real where "turns = 7.5"

text \<open>
  The source of randomness is the sequence \<open>rnd\<close> of the values \<open>Math.random()\<close>
  returns, in call order, each in \<open>[0, 1)\<close>. One iteration of the first loop makes nine
  calls (\<open>u\<close>, \<open>v\<close>, the radius draw, three scatter draws, \<open>rand\<close>, the size draw, the
  id draw); \<open>k\<close> is the number of calls made before the iteration.
\<close>

definition mainParticle :: "(nat \<Rightarrow> real) \<Rightarrow> nat \<Rightarrow> nat \<Rightarrow> ParticleData" where
  "mainParticle rnd i k =
     (let height = TREE_HEIGHT;
          baseRadius = TREE_RADIUS_BASE;
          t = real i / real MAIN_COUNT;
          angle = t * pi * 2 * turns;
          yBase = - height / 2 + t * height;
          spiralRadius = lerp baseRadius 0.1 t;
          cx = cos angle * spiralRadius;
          cz = sin angle * spiralRadius;
          tubeRadius = lerp 0.9 0.3 t;
          u = rnd k;
          v = rnd (k + 1);
          theta = 2 * pi * u;
          phi = arccos (2 * v - 1);
          r = root 3 (rnd (k + 2)) * tubeRadius * 0.9;
          ox = r * sin phi * cos theta;
          oy = r * sin phi * sin theta;
          oz = r * cos phi;
          xTree = cx + ox;
          yTree = yBase + oy * 0.6;
          zTree = cz + oz;
          xScatter = (rnd (k + 3) - 0.5) * SCATTER_BOUNDS;
          yScatter = (rnd (k + 4) - 0.5) * SCATTER_BOUNDS;
          zScatter = (rnd (k + 5) - 0.5) * SCATTER_BOUNDS;
          rand = rnd (k + 6);
          size_draw = rnd (k + 7);
          tcs = (if rand < 0.55 then (CUBE, COLORS_GREEN, size_draw * 0.08 + 0.20)
                 else if rand < 0.70 then (SPHERE, COLORS_RED, size_draw * 0.15 + 0.30)
                 else if rand < 0.80 then (LIGHT, COLORS_LIGHT, size_draw * 0.03 + 0.04)
                 else (SPHERE, COLORS_GOLD, size_draw * 0.15 + 0.25));
          type = fst tcs;
          baseScale = snd (snd tcs);
          finalScale = (if type \<noteq> LIGHT then baseScale * lerp 1.0 0.5 t else baseScale)
      in \<lparr>id_draw = rnd (k + 8),
          initialPos = \<lparr>vx = xTree, vy = yTree, vz = zTree\<rparr>,
          scatterPos = \<lparr>vx = xScatter, vy = yScatter, vz = zScatter\<rparr>,
          ptype = type,
          color = fst (snd tcs),
          scale = finalScale\<rparr>)"

text \<open>
  One iteration of the second loop makes ten calls: \<open>t\<close>, the radius draw, \<open>theta\<close>, the
  height jitter, three scatter draws, \<open>isRed\<close>, the id draw and the size draw.
\<close>

definition fillerParticle :: "(nat \<Rightarrow> real) \<Rightarrow> nat \<Rightarrow> ParticleData" where
  "fillerParticle rnd k =
     (let height = TREE_HEIGHT;
          baseRadius = TREE_RADIUS_BASE;
          t = rnd k;
          heightPos = - height / 2 + t * height;
          maxRadiusAtHeight = lerp baseRadius 0.1 t * 0.7;
          r = sqrt (rnd (k + 1)) * maxRadiusAtHeight;
          theta = rnd (k + 2) * 2 * pi;
          x = r * cos theta;
          z = r * sin theta;
          y = heightPos + (rnd (k + 3) - 0.5) * 0.5;
          xScatter = (rnd (k + 4) - 0.5) * SCATTER_BOUNDS;
          yScatter = (rnd (k + 5) - 0.5) * SCATTER_BOUNDS;
          zScatter = (rnd (k + 6) - 0.5) * SCATTER_BOUNDS;
          isRed = (rnd (k + 7) > 0.5)
      in \<lparr>id_draw = rnd (k + 8),
          initialPos = \<lparr>vx = x, vy = y, vz = z\<rparr>,
          scatterPos = \<lparr>vx = xScatter, vy = yScatter, vz = zScatter\<rparr>,
          ptype = SPHERE,
          color = (if isRed then COLORS_RED else COLORS_GOLD),
          scale = (rnd (k + 9) * 0.05 + 0.08) * lerp 1.0 0.5 t\<rparr>)"

text \<open>The two loops push their particles in order: first the spiral, then the fillers.\<close>

definition generateParticles :: "(nat \<Rightarrow> real) \<Rightarrow> ParticleData list" where
  "generateParticles rnd =
     map (\<lambda>i. mainParticle rnd i (9 * i)) [0..<MAIN_COUNT]
     @ map (\<lambda>i. fillerParticle rnd (9 * MAIN_COUNT + 10 * i)) [0..<FILLER_COUNT]"

section \<open>Per-frame easing (Particles and PolaroidFrame frame callbacks)\<close>

text \<open>three.js \<open>Vector3.lerp(v, alpha)\<close>: \<open>this.x += (v.x - this.x) * alpha\<close>, likewise y and z.\<close>

definition Vector3_lerp :: "Vector3 \<Rightarrow> Vector3 \<Rightarrow> real \<Rightarrow> Vector3" where
  "Vector3_lerp this v alpha =
     \<lparr>vx = vx this + (vx v - vx this) * alpha,
      vy = vy this + (vy v - vy this) * alpha,
      vz = vz this + (vz v - vz this) * alpha\<rparr>"

text \<open>
  One frame of a particle instance: \<open>step = 3 * delta\<close>, the stored position is read
  back and moved towards the resolved target.
\<close>

definition particleFrame :: "real \<Rightarrow> Vector3 \<Rightarrow> Vector3 \<Rightarrow> Vector3" where
  "particleFrame delta target cur = (let step = 3 * delta in Vector3_lerp cur target step)"

text \<open>One frame of a photo panel's position (and of its scale vector): \<open>step = 4 * delta\<close>.\<close>

definition panelFrame :: "real \<Rightarrow> Vector3 \<Rightarrow> Vector3 \<Rightarrow> Vector3" where
  "panelFrame delta target cur = (let step = 4 * delta in Vector3_lerp cur target step)"

text \<open>
  What the animator properties speak about: \<open>approaches tgt old new\<close> says that the new
  value is no farther from the target than the old one and lies between the old value
  and the target (no overshoot).
\<close>

definition approaches :: "real \<Rightarrow> real \<Rightarrow> real \<Rightarrow> bool" where
  "approaches tgt old new \<longleftrightarrow>
     \<bar>new - tgt\<bar> \<le> \<bar>old - tgt\<bar> \<and> min old tgt \<le> new \<and> new \<le> max old tgt"

definition approachesV :: "Vector3 \<Rightarrow> Vector3 \<Rightarrow> Vector3 \<Rightarrow> bool" where
  "approachesV tgt old new \<longleftrightarrow>
     approaches (vx tgt) (vx old) (vx new)
     \<and> approaches (vy tgt) (vy old) (vy new)
     \<and> approaches (vz tgt) (vz old) (vz new)"

text \<open>The sum of the coordinate distances of two positions.\<close>

definition dist1 :: "Vector3 \<Rightarrow> Vector3 \<Rightarrow> real" where
  "dist1 a b = \<bar>vx a - vx b\<bar> + \<bar>vy a - vy b\<bar> + \<bar>vz a - vz b\<bar>"

section \<open>Layout resolver for photo panels (PhotoCloud, PolaroidFrame)\<close>

record Quaternion =
  qx :: real
  qy :: real
  qz :: real
  qw :: real

text \<open>
  three.js library functions the frame callback calls: the identity quaternion of
  \<open>new Quaternion()\<close>, \<open>Quaternion.setFromEuler\<close> for the default order XYZ and
  \<open>Vector3.applyQuaternion\<close>.
\<close>

definition Quaternion_identity :: Quaternion where
  "Quaternion_identity = \<lparr>qx = 0, qy = 0, qz = 0, qw = 1\<rparr>"

definition setFromEuler :: "real \<Rightarrow> real \<Rightarrow> real \<Rightarrow> Quaternion" where
  "setFromEuler x y z =
     (let c1 = cos (x / 2); c2 = cos (y / 2); c3 = cos (z / 2);
          s1 = sin (x / 2); s2 = sin (y / 2); s3 = sin (z / 2)
      in \<lparr>qx = s1 * c2 * c3 + c1 * s2 * s3,
          qy = c1 * s2 * c3 - s1 * c2 * s3,
          qz = c1 * c2 * s3 + s1 * s2 * c3,
          qw = c1 * c2 * c3 - s1 * s2 * s3\<rparr>)"

definition applyQuaternion :: "Vector3 \<Rightarrow> Quaternion \<Rightarrow> Vector3" where
  "applyQuaternion v q =
     (let tx = 2 * (qy q * vz v - qz q * vy v);
          ty = 2 * (qz q * vx v - qx q * vz v);
          tz = 2 * (qx q * vy v - qy q * vx v)
      in \<lparr>vx = vx v + qw q * tx + qy q * tz - qz q * ty,
          vy = vy v + qw q * ty + qz q * tx - qx q * tz,
          vz = vz v + qw q * tz + qx q * ty - qy q * tx\<rparr>)"

definition multiplyScalar :: "Vector3 \<Rightarrow> real \<Rightarrow> Vector3" where
  "multiplyScalar v s = \<lparr>vx = vx v * s, vy = vy v * s, vz = vz v * s\<rparr>"

definition Vector3_add :: "Vector3 \<Rightarrow> Vector3 \<Rightarrow> Vector3" where
  "Vector3_add a b = \<lparr>vx = vx a + vx b, vy = vy a + vy b, vz = vz a + vz b\<rparr>"

record Camera =
  cam_position :: Vector3
  cam_quaternion :: Quaternion

record PanelTarget =
  targetPos :: Vector3
  targetScale :: real
  targetRot :: Quaternion

text \<open>
  The target a \<open>PolaroidFrame\<close> resolves in its frame callback, before easing, once its
  group is mounted (until then the callback returns at once). The memoised \<open>treePos\<close> and
  \<open>randomPos\<close> of the panel are parameters; \<open>elapsedTime\<close> is \<open>state.clock.elapsedTime\<close>.
\<close>

definition polaroidTarget ::
  "bool \<Rightarrow> AppState \<Rightarrow> nat \<Rightarrow> Vector3 \<Rightarrow> Vector3 \<Rightarrow> Camera \<Rightarrow> real \<Rightarrow> PanelTarget" where
  "polaroidTarget isFocused state index treePos randomPos camera elapsedTime =
     (if isFocused then
        (let dist = 5.0;
             forward = applyQuaternion \<lparr>vx = 0, vy = 0, vz = -1\<rparr> (cam_quaternion camera);
             up = applyQuaternion \<lparr>vx = 0, vy = 1, vz = 0\<rparr> (cam_quaternion camera)
         in \<lparr>targetPos =
               Vector3_add (Vector3_add (cam_position camera) (multiplyScalar forward dist))
                 (multiplyScalar up 0.8),
             targetScale = 2.5,
             targetRot = cam_quaternion camera\<rparr>)
      else if state = SCATTERED then
        \<lparr>targetPos = randomPos,
         targetScale = 1.0,
         targetRot = setFromEuler 0 (elapsedTime * 0.1) 0\<rparr>
      else
        (let angleToCenter = atan2 (vx treePos) (vz treePos);
             tilt = sin (real index * 123) * 0.1
         in \<lparr>targetPos = treePos,
             targetScale = 0.65,
             targetRot = setFromEuler tilt angleToCenter (sin (elapsedTime + real index) * 0.05)\<rparr>))"

text \<open>\<open>PhotoCloud\<close> passes \<open>isFocused = (appState === FOCUSED && index === activeIndex)\<close>.\<close>

definition photoCloudTarget ::
  "AppState \<Rightarrow> int \<Rightarrow> nat \<Rightarrow> Vector3 \<Rightarrow> Vector3 \<Rightarrow> Camera \<Rightarrow> real \<Rightarrow> PanelTarget" where
  "photoCloudTarget state activeIdx index treePos randomPos camera elapsedTime =
     polaroidTarget (state = FOCUSED \<and> int index = activeIdx) state index
       treePos randomPos camera elapsedTime"

section \<open>Statement vocabulary and concrete inputs\<close>

text \<open>
  The finger extension test in the words of the classifier's contract: a finger is extended
  when its tip is farther from the wrist (landmark 0) than its PIP joint by more than 0.05;
  the count runs over index (8, 6), middle (12, 10), ring (16, 14) and pinky (20, 18).
\<close>

definition fingerExtended :: "Landmark list \<Rightarrow> nat \<Rightarrow> nat \<Rightarrow> bool" where
  "fingerExtended lms tip pip \<longleftrightarrow>
     sqrt ((lx (lms ! tip) - lx (lms ! 0))\<^sup>2 + (ly (lms ! tip) - ly (lms ! 0))\<^sup>2)
       > sqrt ((lx (lms ! pip) - lx (lms ! 0))\<^sup>2 + (ly (lms ! pip) - ly (lms ! 0))\<^sup>2) + 0.05"

definition extendedCount :: "Landmark list \<Rightarrow> nat" where
  "extendedCount lms =
     of_bool (fingerExtended lms 8 6) + of_bool (fingerExtended lms 12 10)
     + of_bool (fingerExtended lms 16 14) + of_bool (fingerExtended lms 20 18)"

text \<open>The pose emitted when no hand is detected.\<close>

definition defaultPose :: HandControlState where
  "defaultPose = \<lparr>gesture = NONE, position = \<lparr>px = 0, py = 0\<rparr>, rotation = 0\<rparr>"

text \<open>Three uploaded photos.\<close>

definition photo3 :: "PhotoData list" where
  "photo3 = replicate 3 \<lparr>photo_id = ''p'', url = ''blob:p'', aspectRatio = 1\<rparr>"

text \<open>
  A stylised open right hand of 21 landmarks (wrist at the bottom of the image, the four
  fingers stretched upwards, index base left of pinky base in raw coordinates).
\<close>

definition lm :: "real \<Rightarrow> real \<Rightarrow> Landmark" where
  "lm a b = \<lparr>lx = a, ly = b, lz = 0\<rparr>"

definition open_hand :: "Landmark list" where
  "open_hand =
     [lm 0.5 0.9,
      lm 0.5 0.8, lm 0.5 0.7, lm 0.5 0.6, lm 0.5 0.55,
      lm 0.4 0.6, lm 0.5 0.5, lm 0.5 0.4, lm 0.5 0.3,
      lm 0.5 0.6, lm 0.5 0.5, lm 0.5 0.4, lm 0.5 0.25,
      lm 0.5 0.6, lm 0.5 0.5, lm 0.5 0.4, lm 0.5 0.3,
      lm 0.6 0.65, lm 0.5 0.55, lm 0.5 0.5, lm 0.5 0.4]"

text \<open>
  A sequence of random draws: 0.75, 0.5 and 0.125 for the first three calls, 0.01 for
  every later call.
\<close>

definition low_draws :: "nat \<Rightarrow> real" where
  "low_draws k = (if k = 0 then 3 / 4 else if k = 1 then 1 / 2 else if k = 2 then 1 / 8 else 1 / 100)"

section \<open>Theorems\<close>

subsection \<open>Layout resolver\<close>

text \<open>
  C2: the particle layout resolver is a function of its two arguments only; for every
  particle it returns the tree position (\<open>initialPos\<close>) in ASSEMBLED and the scatter
  position in SCATTERED and in FOCUSED.
\<close>

theorem C2_getTargetPosition:
  "getTargetPosition p ASSEMBLED = initialPos p
   \<and> getTargetPosition p SCATTERED = scatterPos p
   \<and> getTargetPosition p FOCUSED = scatterPos p"
  by (simp add: getTargetPosition_def)

subsection \<open>Scene mode state machine\<close>

text \<open>
  C1: one gesture update sets the mode to ASSEMBLED on FIST from any state, to SCATTERED on
  OPEN_PALM in ASSEMBLED or FOCUSED, to FOCUSED on PINCH in SCATTERED with at least one
  photo panel, and leaves the mode unchanged for every other combination; the active photo
  index (and the cooldown timer) is never touched.
\<close>

theorem C1_gesture_transitions:
  "gestureEffect hs photos st =
     st\<lparr>appState :=
        (if gesture hs = FIST then ASSEMBLED
         else if gesture hs = OPEN_PALM \<and> (appState st = ASSEMBLED \<or> appState st = FOCUSED)
           then SCATTERED
         else if gesture hs = PINCH \<and> appState st = SCATTERED \<and> 0 < length photos
           then FOCUSED
         else appState st)\<rparr>
   \<and> activeIndex (gestureEffect hs photos st) = activeIndex st"
  by (cases "gesture hs"; cases "appState st") (simp_all add: gestureEffect_def gestureLogic_def)

lemma js_rem_nonneg: "0 \<le> a \<Longrightarrow> 0 < b \<Longrightarrow> js_rem a b = a mod b"
  by (cases "a = 0") (simp_all add: js_rem_def)

text \<open>
  C4: in FOCUSED mode with more than one panel and an index in \<open>[0, panelCount)\<close>, one
  frame of the carousel decrements the index modulo the panel count when the cooldown has
  run out (more than 0.8 s since the last switch) and the rotation is below -0.4,
  increments it modulo the panel count when the rotation is above 0.4, and resets the
  timer on either change; otherwise nothing changes. So a change happens only when at
  least 0.8 s have elapsed, and the index stays in \<open>[0, panelCount)\<close>.
\<close>

theorem C4_photo_carousel:
  assumes "appState st = FOCUSED" and "1 < length photos"
    and "0 \<le> activeIndex st" and "activeIndex st < int (length photos)"
  shows "(0.8 < time - lastSwitchTime st \<and> rotation hs < - 0.4 \<longrightarrow>
            photoSwitch time hs photos st =
              st\<lparr>activeIndex := (activeIndex st - 1) mod int (length photos),
                 lastSwitchTime := time\<rparr>)
       \<and> (0.8 < time - lastSwitchTime st \<and> 0.4 < rotation hs \<longrightarrow>
            photoSwitch time hs photos st =
              st\<lparr>activeIndex := (activeIndex st + 1) mod int (length photos),
                 lastSwitchTime := time\<rparr>)
       \<and> (time - lastSwitchTime st \<le> 0.8 \<or> (- 0.4 \<le> rotation hs \<and> rotation hs \<le> 0.4) \<longrightarrow>
            photoSwitch time hs photos st = st)
       \<and> (photoSwitch time hs photos st \<noteq> st \<longrightarrow> 0.8 \<le> time - lastSwitchTime st)
       \<and> 0 \<le> activeIndex (photoSwitch time hs photos st)
       \<and> activeIndex (photoSwitch time hs photos st) < int (length photos)"
proof -
  let ?n = "int (length photos)"
  have n: "0 < ?n" using assms(2) by auto
  have nn: "0 \<le> activeIndex st - 1 + ?n" using assms(3) n by linarith
  have "js_rem (activeIndex st - 1 + ?n) ?n = (activeIndex st - 1 + ?n) mod ?n"
    by (rule js_rem_nonneg [OF nn n])
  then have dec: "js_rem (activeIndex st - 1 + ?n) ?n = (activeIndex st - 1) mod ?n"
    by simp
  have pp: "0 \<le> activeIndex st + 1" using assms(3) by linarith
  have inc: "js_rem (activeIndex st + 1) ?n = (activeIndex st + 1) mod ?n"
    by (rule js_rem_nonneg [OF pp n])
  show ?thesis
    using assms n by (auto simp: photoSwitch_def Let_def dec inc)
qed

text \<open>Decrementing from index 0 with three panels and rotation -0.5 yields index 2.\<close>

theorem C4_witness:
  "activeIndex (photoSwitch 1 \<lparr>gesture = NONE, position = \<lparr>px = 0, py = 0\<rparr>, rotation = - 0.5\<rparr>
      photo3 \<lparr>appState = FOCUSED, activeIndex = 0, lastSwitchTime = 0\<rparr>) = 2"
  using C4_photo_carousel [of "\<lparr>appState = FOCUSED, activeIndex = 0, lastSwitchTime = 0\<rparr>"
      photo3 1 "\<lparr>gesture = NONE, position = \<lparr>px = 0, py = 0\<rparr>, rotation = - 0.5\<rparr>"]
  by (simp add: photo3_def)

subsection \<open>Gesture classifier\<close>

lemma dist2_sqrt:
  "dist2 p q = sqrt ((lx p - lx q)\<^sup>2 + (ly p - ly q)\<^sup>2)"
  by (simp add: dist2_def hypot_def)

lemma count_filter4:
  "length (filter (\<lambda>b. b) [a, b, c, d]) = of_bool a + of_bool b + of_bool c + of_bool d"
  by simp

lemma detectGesture_21:
  assumes "20 < length lms"
  shows "detectGesture lms =
     (if sqrt ((lx (lms ! 4) - lx (lms ! 8))\<^sup>2 + (ly (lms ! 4) - ly (lms ! 8))\<^sup>2) < 0.05
      then Inr PINCH
      else if 3 \<le> extendedCount lms then Inr OPEN_PALM
      else if extendedCount lms \<le> 1 then Inr FIST
      else Inr NONE)"
  using assms
  unfolding detectGesture_def Let_def count_filter4 extendedCount_def fingerExtended_def
    dist2_sqrt hypot_def
  by simp

text \<open>
  C5: on 21 landmarks the classifier returns PINCH exactly when the Euclidean distance
  between landmarks 4 and 8 is below 0.05 (in particular when they coincide); otherwise it
  returns OPEN_PALM for at least three extended fingers, FIST for at most one and NONE for
  exactly two.
\<close>

theorem C5_detectGesture:
  assumes "length lms = 21"
  shows "(detectGesture lms = Inr PINCH \<longleftrightarrow>
            sqrt ((lx (lms ! 4) - lx (lms ! 8))\<^sup>2 + (ly (lms ! 4) - ly (lms ! 8))\<^sup>2) < 0.05)
       \<and> (lx (lms ! 4) = lx (lms ! 8) \<and> ly (lms ! 4) = ly (lms ! 8) \<longrightarrow>
            detectGesture lms = Inr PINCH)
       \<and> (\<not> sqrt ((lx (lms ! 4) - lx (lms ! 8))\<^sup>2 + (ly (lms ! 4) - ly (lms ! 8))\<^sup>2) < 0.05 \<longrightarrow>
            (3 \<le> extendedCount lms \<longrightarrow> detectGesture lms = Inr OPEN_PALM)
          \<and> (extendedCount lms \<le> 1 \<longrightarrow> detectGesture lms = Inr FIST)
          \<and> (extendedCount lms = 2 \<longrightarrow> detectGesture lms = Inr NONE))
       \<and> extendedCount lms \<le> 4"
proof -
  have len: "20 < length lms" using assms by simp
  have cnt: "extendedCount lms \<le> 4" by (simp add: extendedCount_def)
  show ?thesis
    unfolding detectGesture_21 [OF len] using cnt by auto
qed

lemma open_hand_nth:
  "open_hand ! 0 = lm 0.5 0.9" "open_hand ! 4 = lm 0.5 0.55" "open_hand ! 6 = lm 0.5 0.5"
  "open_hand ! 8 = lm 0.5 0.3" "open_hand ! 10 = lm 0.5 0.5" "open_hand ! 12 = lm 0.5 0.25"
  "open_hand ! 14 = lm 0.5 0.5" "open_hand ! 16 = lm 0.5 0.3" "open_hand ! 18 = lm 0.5 0.55"
  "open_hand ! 20 = lm 0.5 0.4" "open_hand ! 5 = lm 0.4 0.6" "open_hand ! 17 = lm 0.6 0.65"
  "open_hand ! 9 = lm 0.5 0.6" "length open_hand = 21"
  by (simp_all add: open_hand_def)

lemma sqrt_values:
  "sqrt (4 / 25) = 2 / 5" "sqrt (9 / 25) = 3 / 5" "sqrt (169 / 400) = 13 / 20"
  "sqrt (49 / 400) = 7 / 20" "sqrt (1 / 4) = 1 / 2" "sqrt (1 / 16) = 1 / 4"
  by (rule real_sqrt_unique; simp add: power2_eq_square)+

lemma open_hand_extended: "extendedCount open_hand = 4"
  unfolding extendedCount_def fingerExtended_def open_hand_nth lm_def
  by (simp add: sqrt_values)

theorem C5_witness:
  "length open_hand = 21 \<and> extendedCount open_hand = 4 \<and> detectGesture open_hand = Inr OPEN_PALM"
  using C5_detectGesture [of open_hand] open_hand_extended open_hand_nth(14)
  unfolding open_hand_nth lm_def
  by (simp add: sqrt_values)

subsection \<open>Hand pose emitted by the results callback\<close>

lemma detectGesture_returns:
  "20 < length lms \<Longrightarrow> \<exists>g. detectGesture lms = Inr g"
  by (simp add: detectGesture_def Let_def)

lemma onResults_hand:
  assumes "20 < length lms"
  shows "\<exists>g. onResults True (Some (lms # others)) =
     Inr (Some \<lparr>gesture = g,
                position = \<lparr>px = (1 - lx (lms ! 9)) * 2 - 1, py = (1 - ly (lms ! 9)) * 2 - 1\<rparr>,
                rotation =
                  (if 0 < lx (lms ! 17) - lx (lms ! 5)
                   then atan2 (ly (lms ! 17) - ly (lms ! 5)) \<bar>lx (lms ! 17) - lx (lms ! 5)\<bar>
                   else - atan2 (ly (lms ! 17) - ly (lms ! 5)) \<bar>lx (lms ! 17) - lx (lms ! 5)\<bar>)\<rparr>)"
proof -
  from detectGesture_returns [OF assms] obtain g where g: "detectGesture lms = Inr g" ..
  have "\<not> length lms \<le> 17" using assms by simp
  then show ?thesis
    by (simp add: onResults_def g Let_def)
qed

lemma mirror_nth: "i < length lms \<Longrightarrow> mirror lms ! i = (lms ! i)\<lparr>lx := 1 - lx (lms ! i)\<rparr>"
  by (simp add: mirror_def)

lemma mirror_length: "length (mirror lms) = length lms"
  by (simp add: mirror_def)

text \<open>
  C8: for 21 landmarks whose landmarks 5 and 17 differ in x, the emitted roll is
  \<open>atan2(dy, |dx|)\<close> of the vector from landmark 5 to landmark 17, negated exactly when
  \<open>dx < 0\<close>; mirroring every landmark (\<open>x \<mapsto> 1 - x\<close>) negates the emitted rotation and
  keeps its magnitude.
\<close>

theorem C8_roll:
  assumes "length lms = 21" and "lx (lms ! 5) \<noteq> lx (lms ! 17)"
  shows "\<exists>hs hs'.
     onResults True (Some (lms # others)) = Inr (Some hs)
     \<and> onResults True (Some (mirror lms # others)) = Inr (Some hs')
     \<and> rotation hs =
         (if lx (lms ! 17) - lx (lms ! 5) < 0
          then - atan2 (ly (lms ! 17) - ly (lms ! 5)) \<bar>lx (lms ! 17) - lx (lms ! 5)\<bar>
          else atan2 (ly (lms ! 17) - ly (lms ! 5)) \<bar>lx (lms ! 17) - lx (lms ! 5)\<bar>)
     \<and> rotation hs' = - rotation hs
     \<and> \<bar>rotation hs'\<bar> = \<bar>rotation hs\<bar>"
proof -
  have len: "20 < length lms" and len': "20 < length (mirror lms)"
    using assms(1) by (simp_all add: mirror_length)
  have i5: "5 < length lms" and i17: "17 < length lms" using assms(1) by simp_all
  from onResults_hand [OF len, of others] obtain g where
    a: "onResults True (Some (lms # others)) =
     Inr (Some \<lparr>gesture = g,
                position = \<lparr>px = (1 - lx (lms ! 9)) * 2 - 1, py = (1 - ly (lms ! 9)) * 2 - 1\<rparr>,
                rotation =
                  (if 0 < lx (lms ! 17) - lx (lms ! 5)
                   then atan2 (ly (lms ! 17) - ly (lms ! 5)) \<bar>lx (lms ! 17) - lx (lms ! 5)\<bar>
                   else - atan2 (ly (lms ! 17) - ly (lms ! 5)) \<bar>lx (lms ! 17) - lx (lms ! 5)\<bar>)\<rparr>)"
    by blast
  from onResults_hand [OF len', of others] obtain g' where
    b: "onResults True (Some (mirror lms # others)) =
     Inr (Some \<lparr>gesture = g',
                position = \<lparr>px = (1 - lx (mirror lms ! 9)) * 2 - 1,
                             py = (1 - ly (mirror lms ! 9)) * 2 - 1\<rparr>,
                rotation =
                  (if 0 < lx (mirror lms ! 17) - lx (mirror lms ! 5)
                   then atan2 (ly (mirror lms ! 17) - ly (mirror lms ! 5))
                          \<bar>lx (mirror lms ! 17) - lx (mirror lms ! 5)\<bar>
                   else - atan2 (ly (mirror lms ! 17) - ly (mirror lms ! 5))
                          \<bar>lx (mirror lms ! 17) - lx (mirror lms ! 5)\<bar>)\<rparr>)"
    by blast
  have dx: "lx (mirror lms ! 17) - lx (mirror lms ! 5) = - (lx (lms ! 17) - lx (lms ! 5))"
    by (simp add: mirror_nth [OF i5] mirror_nth [OF i17])
  have dy: "ly (mirror lms ! 17) - ly (mirror lms ! 5) = ly (lms ! 17) - ly (lms ! 5)"
    by (simp add: mirror_nth [OF i5] mirror_nth [OF i17])
  have ne: "lx (lms ! 17) - lx (lms ! 5) \<noteq> 0" using assms(2) by simp
  show ?thesis
    unfolding a b dx dy using ne by auto
qed

text \<open>The open hand rolls by \<open>atan2(0.05, 0.2)\<close>, its mirror image by the negated angle.\<close>

theorem C8_witness:
  "\<exists>hs hs'. onResults True (Some [open_hand]) = Inr (Some hs)
     \<and> onResults True (Some [mirror open_hand]) = Inr (Some hs')
     \<and> rotation hs = atan2 (1 / 20) (1 / 5)
     \<and> rotation hs' = - rotation hs"
proof -
  have len: "length open_hand = 21" and ne: "lx (open_hand ! 5) \<noteq> lx (open_hand ! 17)"
    by (simp_all add: open_hand_nth lm_def)
  from C8_roll [OF len ne, of "[]"] obtain hs hs' where
    "onResults True (Some [open_hand]) = Inr (Some hs)"
    "onResults True (Some [mirror open_hand]) = Inr (Some hs')"
    "rotation hs =
       (if lx (open_hand ! 17) - lx (open_hand ! 5) < 0
        then - atan2 (ly (open_hand ! 17) - ly (open_hand ! 5))
               \<bar>lx (open_hand ! 17) - lx (open_hand ! 5)\<bar>
        else atan2 (ly (open_hand ! 17) - ly (open_hand ! 5))
               \<bar>lx (open_hand ! 17) - lx (open_hand ! 5)\<bar>)"
    "rotation hs' = - rotation hs"
    by blast
  then show ?thesis
    by (intro exI [of _ hs] exI [of _ hs']) (simp add: open_hand_nth lm_def)
qed

text \<open>
  The \<open>active\<close> flag is cleared only by the effect's cleanup, when the controller is torn
  down; from then on the callback returns at once, whatever the result holds.
\<close>

lemma onResults_inactive: "onResults False r = Inr None"
  by (simp add: onResults_def)

text \<open>
  C9: whenever the vision collaborator reports zero detected hands for a frame (an absent
  or an empty \<open>multiHandLandmarks\<close>), the live controller emits exactly the default pose
  \<open>{gesture: NONE, position: (0, 0), rotation: 0}\<close>: the callback returns no error and does
  call \<open>onUpdate\<close>.
\<close>

theorem C9_no_hand_active:
  "onResults True None = Inr (Some defaultPose)
   \<and> onResults True (Some []) = Inr (Some defaultPose)
   \<and> defaultPose = \<lparr>gesture = NONE, position = \<lparr>px = 0, py = 0\<rparr>, rotation = 0\<rparr>"
  by (simp add: onResults_def defaultPose_def)

text \<open>
  C10: whenever a hand of 21 landmarks is detected, the emitted position is
  \<open>x = (1 - raw.x) * 2 - 1\<close> and \<open>y = (1 - raw.y) * 2 - 1\<close> of landmark 9; the vertical
  coordinate is inverted like the horizontal one, so the distance of \<open>position.y\<close> from +1
  is twice the raw y (raw y near 0 maps near +1).
\<close>

theorem C10_position:
  assumes "length lms = 21"
  shows "\<exists>hs. onResults True (Some (lms # others)) = Inr (Some hs)
     \<and> px (position hs) = (1 - lx (lms ! 9)) * 2 - 1
     \<and> py (position hs) = (1 - ly (lms ! 9)) * 2 - 1
     \<and> \<bar>py (position hs) - 1\<bar> = 2 * \<bar>ly (lms ! 9)\<bar>
     \<and> \<bar>px (position hs) - 1\<bar> = 2 * \<bar>lx (lms ! 9)\<bar>"
proof -
  have len: "20 < length lms" using assms by simp
  from onResults_hand [OF len, of others] obtain g where
    a: "onResults True (Some (lms # others)) =
     Inr (Some \<lparr>gesture = g,
                position = \<lparr>px = (1 - lx (lms ! 9)) * 2 - 1, py = (1 - ly (lms ! 9)) * 2 - 1\<rparr>,
                rotation =
                  (if 0 < lx (lms ! 17) - lx (lms ! 5)
                   then atan2 (ly (lms ! 17) - ly (lms ! 5)) \<bar>lx (lms ! 17) - lx (lms ! 5)\<bar>
                   else - atan2 (ly (lms ! 17) - ly (lms ! 5)) \<bar>lx (lms ! 17) - lx (lms ! 5)\<bar>)\<rparr>)"
    by blast
  show ?thesis unfolding a by (simp add: abs_mult)
qed

text \<open>The open hand, with landmark 9 at (0.5, 0.6), is emitted at (0, -0.2).\<close>

theorem C10_witness:
  "\<exists>hs. onResults True (Some [open_hand]) = Inr (Some hs)
     \<and> px (position hs) = 0 \<and> py (position hs) = - (1 / 5)"
proof -
  have len: "length open_hand = 21" by (simp add: open_hand_nth)
  from C10_position [OF len, of "[]"] obtain hs where
    "onResults True (Some [open_hand]) = Inr (Some hs)"
    "px (position hs) = (1 - lx (open_hand ! 9)) * 2 - 1"
    "py (position hs) = (1 - ly (open_hand ! 9)) * 2 - 1"
    by blast
  then show ?thesis
    by (intro exI [of _ hs]) (simp add: open_hand_nth lm_def)
qed

subsection \<open>Per-frame easing\<close>

lemma approaches_step:
  assumes "0 \<le> a" "a \<le> 1"
  shows "approaches tgt c (c + (tgt - c) * a)"
proof -
  have eq: "c + (tgt - c) * a - tgt = (1 - a) * (c - tgt)" by (simp add: algebra_simps)
  have "\<bar>(1 - a) * (c - tgt)\<bar> \<le> 1 * \<bar>c - tgt\<bar>"
    unfolding abs_mult using assms by (intro mult_right_mono) auto
  then have d: "\<bar>c + (tgt - c) * a - tgt\<bar> \<le> \<bar>c - tgt\<bar>" by (simp add: eq)
  have lo: "min c tgt \<le> c + (tgt - c) * a"
  proof (cases "c \<le> tgt")
    case True
    then have "0 \<le> (tgt - c) * a" using assms by simp
    with True show ?thesis by simp
  next
    case False
    then have "(c - tgt) * a \<le> (c - tgt) * 1" using assms by (intro mult_left_mono) auto
    with False show ?thesis by (simp add: algebra_simps)
  qed
  have hi: "c + (tgt - c) * a \<le> max c tgt"
  proof (cases "c \<le> tgt")
    case True
    then have "(tgt - c) * a \<le> (tgt - c) * 1" using assms by (intro mult_left_mono) auto
    with True show ?thesis by (simp add: algebra_simps)
  next
    case False
    then have "(tgt - c) * a \<le> 0" using assms by (simp add: mult_le_0_iff)
    with False show ?thesis by simp
  qed
  show ?thesis unfolding approaches_def using d lo hi by simp
qed

lemma approachesV_lerp:
  assumes "0 \<le> a" "a \<le> 1"
  shows "approachesV tgt c (Vector3_lerp c tgt a)"
  unfolding approachesV_def Vector3_lerp_def
  using approaches_step [OF assms] by simp

lemma strict_step:
  assumes "0 < a" "a \<le> 1" "c \<noteq> tgt"
  shows "\<bar>c + (tgt - c) * a - tgt\<bar> < \<bar>c - (tgt::real)\<bar>"
proof -
  have eq: "c + (tgt - c) * a - tgt = (1 - a) * (c - tgt)" by (simp add: algebra_simps)
  have "\<bar>1 - a\<bar> < 1" using assms by simp
  moreover have "0 < \<bar>c - tgt\<bar>" using assms by simp
  ultimately have "\<bar>1 - a\<bar> * \<bar>c - tgt\<bar> < 1 * \<bar>c - tgt\<bar>"
    by (intro mult_strict_right_mono)
  then show ?thesis by (simp add: eq abs_mult)
qed

lemma approaches_trans:
  "approaches tgt a b \<Longrightarrow> approaches tgt b c \<Longrightarrow> approaches tgt a c"
  unfolding approaches_def by linarith

lemma approaches_refl: "approaches tgt a a"
  unfolding approaches_def by simp

lemma approachesV_trans:
  "approachesV tgt a b \<Longrightarrow> approachesV tgt b c \<Longrightarrow> approachesV tgt a c"
  unfolding approachesV_def by (blast intro: approaches_trans)

lemma approachesV_iter:
  assumes "0 \<le> a" "a \<le> 1"
  shows "approachesV tgt cur (((\<lambda>c. Vector3_lerp c tgt a) ^^ n) cur)"
proof (induction n)
  case 0
  show ?case by (simp add: approachesV_def approaches_refl)
next
  case (Suc n)
  have "approachesV tgt (((\<lambda>c. Vector3_lerp c tgt a) ^^ n) cur)
          (((\<lambda>c. Vector3_lerp c tgt a) ^^ Suc n) cur)"
    using approachesV_lerp [OF assms] by simp
  with Suc show ?case by (rule approachesV_trans)
qed

lemma abs_lerp_step: "\<bar>x + (t - x) * a - t\<bar> = \<bar>1 - a\<bar> * \<bar>x - (t::real)\<bar>"
proof -
  have "x + (t - x) * a - t = (1 - a) * (x - t)" by (simp add: algebra_simps)
  then show ?thesis by (simp only: abs_mult)
qed

lemma dist1_lerp:
  "dist1 (Vector3_lerp c tgt a) tgt = \<bar>1 - a\<bar> * dist1 c tgt"
  unfolding dist1_def Vector3_lerp_def
  by (simp only: Vector3.simps abs_lerp_step distrib_left)

lemma dist1_pos: "c \<noteq> tgt \<Longrightarrow> 0 < dist1 c tgt"
proof -
  assume ne: "c \<noteq> tgt"
  have "vx c \<noteq> vx tgt \<or> vy c \<noteq> vy tgt \<or> vz c \<noteq> vz tgt"
    using ne by (auto intro: Vector3.equality)
  then show ?thesis unfolding dist1_def by auto
qed

lemma dist1_strict:
  assumes "0 < a" "a \<le> 1" "c \<noteq> tgt"
  shows "dist1 (Vector3_lerp c tgt a) tgt < dist1 c tgt"
proof -
  have "\<bar>1 - a\<bar> < 1" using assms by simp
  then have "\<bar>1 - a\<bar> * dist1 c tgt < 1 * dist1 c tgt"
    using dist1_pos [OF assms(3)] by (intro mult_strict_right_mono)
  then show ?thesis by (simp add: dist1_lerp)
qed

lemma lerp_fixed: "Vector3_lerp tgt tgt a = tgt"
  by (simp add: Vector3_lerp_def)

text \<open>
  C7 as stated fails for large frame times: with \<open>\<Delta>t = 0.5\<close> the interpolation factor is
  1.5 for particles and 2 for panels, and one step from 0 towards 1 lands on 1.5 and on 2,
  beyond the target.
\<close>

theorem C7_easing_counterexample:
  "particleFrame (1 / 2) \<lparr>vx = 1, vy = 0, vz = 0\<rparr> \<lparr>vx = 0, vy = 0, vz = 0\<rparr>
     = \<lparr>vx = 3 / 2, vy = 0, vz = 0\<rparr>
   \<and> \<not> approachesV \<lparr>vx = 1, vy = 0, vz = 0\<rparr> \<lparr>vx = 0, vy = 0, vz = 0\<rparr>
        (particleFrame (1 / 2) \<lparr>vx = 1, vy = 0, vz = 0\<rparr> \<lparr>vx = 0, vy = 0, vz = 0\<rparr>)
   \<and> panelFrame (1 / 2) \<lparr>vx = 1, vy = 0, vz = 0\<rparr> \<lparr>vx = 0, vy = 0, vz = 0\<rparr>
     = \<lparr>vx = 2, vy = 0, vz = 0\<rparr>
   \<and> \<not> approachesV \<lparr>vx = 1, vy = 0, vz = 0\<rparr> \<lparr>vx = 0, vy = 0, vz = 0\<rparr>
        (panelFrame (1 / 2) \<lparr>vx = 1, vy = 0, vz = 0\<rparr> \<lparr>vx = 0, vy = 0, vz = 0\<rparr>)"
  by (simp add: particleFrame_def panelFrame_def Vector3_lerp_def approachesV_def approaches_def)

text \<open>
  C7, amended: with the target fixed and a constant \<open>\<Delta>t > 0\<close> with \<open>k \<Delta>t \<le> 1\<close> (k = 3
  for particles, k = 4 for photo panels), every step moves each coordinate no farther from
  the target and keeps it between the previous value and the target, every iterate lies
  between the start and the target, and the distance to the target strictly decreases
  until the target is reached; at the target a step of any \<open>\<Delta>t\<close> changes nothing.
\<close>

theorem C7_easing:
  assumes "0 < dt"
  shows "(3 * dt \<le> 1 \<longrightarrow>
            approachesV tgt ((particleFrame dt tgt ^^ n) cur) ((particleFrame dt tgt ^^ Suc n) cur)
          \<and> approachesV tgt cur ((particleFrame dt tgt ^^ n) cur)
          \<and> ((particleFrame dt tgt ^^ n) cur \<noteq> tgt \<longrightarrow>
               dist1 ((particleFrame dt tgt ^^ Suc n) cur) tgt
                 < dist1 ((particleFrame dt tgt ^^ n) cur) tgt))
       \<and> (4 * dt \<le> 1 \<longrightarrow>
            approachesV tgt ((panelFrame dt tgt ^^ n) cur) ((panelFrame dt tgt ^^ Suc n) cur)
          \<and> approachesV tgt cur ((panelFrame dt tgt ^^ n) cur)
          \<and> ((panelFrame dt tgt ^^ n) cur \<noteq> tgt \<longrightarrow>
               dist1 ((panelFrame dt tgt ^^ Suc n) cur) tgt
                 < dist1 ((panelFrame dt tgt ^^ n) cur) tgt))
       \<and> particleFrame dt' tgt tgt = tgt
       \<and> panelFrame dt' tgt tgt = tgt"
proof -
  have pf: "particleFrame dt tgt = (\<lambda>c. Vector3_lerp c tgt (3 * dt))"
    and qf: "panelFrame dt tgt = (\<lambda>c. Vector3_lerp c tgt (4 * dt))"
    by (simp_all add: particleFrame_def panelFrame_def fun_eq_iff)
  have gen: "approachesV tgt (((\<lambda>c. Vector3_lerp c tgt a) ^^ n) cur)
               (((\<lambda>c. Vector3_lerp c tgt a) ^^ Suc n) cur)
          \<and> approachesV tgt cur (((\<lambda>c. Vector3_lerp c tgt a) ^^ n) cur)
          \<and> (((\<lambda>c. Vector3_lerp c tgt a) ^^ n) cur \<noteq> tgt \<longrightarrow>
               dist1 (((\<lambda>c. Vector3_lerp c tgt a) ^^ Suc n) cur) tgt
                 < dist1 (((\<lambda>c. Vector3_lerp c tgt a) ^^ n) cur) tgt)"
    if a: "0 < a" "a \<le> 1" for a
  proof -
    have a0: "0 \<le> a" using a by simp
    show ?thesis
      using approachesV_lerp [OF a0 a(2)] approachesV_iter [OF a0 a(2)] dist1_strict [OF a]
      by simp
  qed
  have p3: "0 < 3 * dt" and p4: "0 < 4 * dt" using assms by simp_all
  show ?thesis
    unfolding pf qf using gen [OF p3] gen [OF p4]
    by (simp add: particleFrame_def panelFrame_def lerp_fixed)
qed

text \<open>At \<open>\<Delta>t = 0.25\<close> both bounds hold and one step from 0 towards 1 approaches.\<close>

theorem C7_easing_witness:
  "approachesV \<lparr>vx = 1, vy = 0, vz = 0\<rparr> \<lparr>vx = 0, vy = 0, vz = 0\<rparr>
     (particleFrame (1 / 4) \<lparr>vx = 1, vy = 0, vz = 0\<rparr> \<lparr>vx = 0, vy = 0, vz = 0\<rparr>)
   \<and> approachesV \<lparr>vx = 1, vy = 0, vz = 0\<rparr> \<lparr>vx = 0, vy = 0, vz = 0\<rparr>
     (panelFrame (1 / 4) \<lparr>vx = 1, vy = 0, vz = 0\<rparr> \<lparr>vx = 0, vy = 0, vz = 0\<rparr>)"
  using C7_easing [of "1 / 4" "\<lparr>vx = 1, vy = 0, vz = 0\<rparr>" 0 "\<lparr>vx = 0, vy = 0, vz = 0\<rparr>"]
  by simp

subsection \<open>Particle generator\<close>

lemma generateParticles_length: "length (generateParticles rnd) = PARTICLE_COUNT"
  by (simp add: generateParticles_def MAIN_COUNT_def FILLER_COUNT_def PARTICLE_COUNT_def)

lemma generateParticles_nth_main:
  "i < MAIN_COUNT \<Longrightarrow> generateParticles rnd ! i = mainParticle rnd i (9 * i)"
  by (simp add: generateParticles_def nth_append)

lemma generateParticles_nth_filler:
  "i < FILLER_COUNT \<Longrightarrow>
     generateParticles rnd ! (MAIN_COUNT + i) = fillerParticle rnd (9 * MAIN_COUNT + 10 * i)"
  by (simp add: generateParticles_def nth_append)

lemma generateParticles_cases:
  assumes "p \<in> set (generateParticles rnd)"
  shows "(\<exists>i < MAIN_COUNT. p = mainParticle rnd i (9 * i))
       \<or> (\<exists>k. p = fillerParticle rnd k)"
  using assms by (auto simp: generateParticles_def)

lemma main_y:
  "vy (initialPos (mainParticle rnd i k)) =
     - TREE_HEIGHT / 2 + (real i / real MAIN_COUNT) * TREE_HEIGHT
     + root 3 (rnd (k + 2)) * lerp 0.9 0.3 (real i / real MAIN_COUNT) * 0.9
       * sin (arccos (2 * rnd (k + 1) - 1)) * sin (2 * pi * rnd k) * 0.6"
  by (simp add: mainParticle_def Let_def)

lemma filler_y:
  "vy (initialPos (fillerParticle rnd k)) =
     - TREE_HEIGHT / 2 + rnd k * TREE_HEIGHT + (rnd (k + 3) - 0.5) * 0.5"
  by (simp add: fillerParticle_def Let_def)

lemma offset_bound:
  assumes "0 \<le> c" "c \<le> 1" "0 \<le> tube" "\<bar>s\<bar> \<le> 1"
  shows "\<bar>c * tube * 0.9 * s * 0.6\<bar> \<le> 0.54 * (tube::real)"
proof -
  have "c * tube \<le> 1 * tube" using assms by (intro mult_right_mono) auto
  moreover have "0 \<le> c * tube" using assms by simp
  ultimately have "(c * tube) * \<bar>s\<bar> \<le> tube * 1"
    using assms by (intro mult_mono) auto
  moreover have "\<bar>c * tube * 0.9 * s * 0.6\<bar> = 0.54 * ((c * tube) * \<bar>s\<bar>)"
    using assms by (simp add: abs_mult)
  ultimately show ?thesis by simp
qed

lemma main_y_bounds:
  assumes r: "\<forall>k. 0 \<le> rnd k \<and> rnd k < 1" and i: "i < MAIN_COUNT"
  shows "- TREE_HEIGHT / 2 - 0.486 \<le> vy (initialPos (mainParticle rnd i k))"
    and "vy (initialPos (mainParticle rnd i k)) \<le> TREE_HEIGHT / 2 + 0.25"
proof -
  define t where "t = real i / real MAIN_COUNT"
  define c where "c = root 3 (rnd (k + 2))"
  define s where "s = sin (arccos (2 * rnd (k + 1) - 1)) * sin (2 * pi * rnd k)"
  define tube where "tube = lerp 0.9 0.3 t"
  have M: "0 < real MAIN_COUNT"
    by (simp add: MAIN_COUNT_def PARTICLE_COUNT_def FILLER_COUNT_def)
  have t0: "0 \<le> t" unfolding t_def by simp
  have t1: "t < 1" unfolding t_def using i M by simp
  have c0: "0 \<le> c" unfolding c_def using r by simp
  have "rnd (k + 2) \<le> 1" using r by (simp add: less_imp_le)
  then have "root 3 (rnd (k + 2)) \<le> root 3 1"
    by (intro real_root_le_mono) simp_all
  then have c1: "c \<le> 1" unfolding c_def by simp
  have "\<bar>s\<bar> \<le> 1 * 1" unfolding s_def abs_mult
    by (intro mult_mono) auto
  then have s1: "\<bar>s\<bar> \<le> 1" by simp
  have tube_eq: "tube = 0.9 - 0.6 * t" unfolding tube_def lerp_def by (simp add: field_simps)
  have tube0: "0 \<le> tube" using t1 tube_eq by simp
  define off where "off = c * tube * 0.9 * s * 0.6"
  have y: "vy (initialPos (mainParticle rnd i k)) = - TREE_HEIGHT / 2 + t * TREE_HEIGHT + off"
    unfolding main_y t_def c_def s_def tube_def off_def by (simp add: algebra_simps)
  have "\<bar>off\<bar> \<le> 0.54 * tube"
    unfolding off_def by (rule offset_bound [OF c0 c1 tube0 s1])
  then have ob: "\<bar>off\<bar> \<le> 0.54 * (0.9 - 0.6 * t)" by (simp only: tube_eq)
  have lo: "- 5 - 0.486 \<le> - 5 + t * 10 + off" using ob t0 t1 by (simp add: field_simps)
  have hi: "- 5 + t * 10 + off \<le> 5 + 0.25" using ob t0 t1 by (simp add: field_simps)
  show "- TREE_HEIGHT / 2 - 0.486 \<le> vy (initialPos (mainParticle rnd i k))"
    unfolding y TREE_HEIGHT_def using lo by simp
  show "vy (initialPos (mainParticle rnd i k)) \<le> TREE_HEIGHT / 2 + 0.25"
    unfolding y TREE_HEIGHT_def using hi by simp
qed

lemma filler_y_bounds:
  assumes r: "\<forall>k. 0 \<le> rnd k \<and> rnd k < 1"
  shows "- TREE_HEIGHT / 2 - 0.25 \<le> vy (initialPos (fillerParticle rnd k))"
    and "vy (initialPos (fillerParticle rnd k)) \<le> TREE_HEIGHT / 2 + 0.25"
proof -
  have a: "0 \<le> rnd k" "rnd k < 1" "0 \<le> rnd (k + 3)" "rnd (k + 3) < 1"
    using r by simp_all
  show "- TREE_HEIGHT / 2 - 0.25 \<le> vy (initialPos (fillerParticle rnd k))"
    unfolding filler_y TREE_HEIGHT_def using a by (simp add: field_simps)
  show "vy (initialPos (fillerParticle rnd k)) \<le> TREE_HEIGHT / 2 + 0.25"
    unfolding filler_y TREE_HEIGHT_def using a by (simp add: field_simps)
qed

lemma low_draws_range: "\<forall>k. 0 \<le> low_draws k \<and> low_draws k < 1"
  by (simp add: low_draws_def)

lemma root3_eighth: "root 3 (1 / 8) = 1 / 2"
  by (rule real_root_pos_unique) (simp_all add: power3_eq_cube)

lemma main0_y: "vy (initialPos (mainParticle low_draws 0 0)) = - 5.243"
proof -
  have s: "sin (3 * pi / 2) = - 1"
    using sin_3over2_pi by simp
  show ?thesis
    unfolding main_y
    by (simp add: low_draws_def root3_eighth s lerp_def TREE_HEIGHT_def)
qed

lemma filler0_y: "vy (initialPos (fillerParticle low_draws (9 * MAIN_COUNT))) = - 5.145"
  unfolding filler_y
  by (simp add: low_draws_def MAIN_COUNT_def PARTICLE_COUNT_def FILLER_COUNT_def TREE_HEIGHT_def)

text \<open>
  C6 as stated fails: the random offsets push tree positions below \<open>-height/2\<close>. With the
  draws \<open>low_draws\<close> the first spiral particle (index 0) has y = -5.243 and the first
  filler particle (index 1800) has y = -5.145, both below -5.
\<close>

theorem C6_tree_y_counterexample:
  "vy (initialPos (generateParticles low_draws ! 0)) = - 5.243
   \<and> vy (initialPos (generateParticles low_draws ! 1800)) = - 5.145
   \<and> - 5.243 < - TREE_HEIGHT / 2 \<and> - 5.145 < - TREE_HEIGHT / 2"
proof -
  have a: "generateParticles low_draws ! 0 = mainParticle low_draws 0 0"
    using generateParticles_nth_main [of 0 low_draws]
    by (simp add: MAIN_COUNT_def PARTICLE_COUNT_def FILLER_COUNT_def)
  have "generateParticles low_draws ! (MAIN_COUNT + 0) = fillerParticle low_draws (9 * MAIN_COUNT + 10 * 0)"
    by (rule generateParticles_nth_filler) (simp add: FILLER_COUNT_def)
  then have b: "generateParticles low_draws ! 1800 = fillerParticle low_draws (9 * MAIN_COUNT)"
    by (simp add: MAIN_COUNT_def PARTICLE_COUNT_def FILLER_COUNT_def)
  show ?thesis
    unfolding a b main0_y filler0_y by (simp add: TREE_HEIGHT_def)
qed

text \<open>
  C6, amended: for every outcome of the random draws (each in \<open>[0, 1)\<close>), every generated
  particle, spiral or filler, has its tree position y within
  \<open>[-height/2 - 0.486, height/2 + 0.25]\<close>: the centre line height lies in
  \<open>[-height/2, height/2)\<close>, a spiral particle is offset from it by at most 0.54 times the
  tube radius (at most 0.486), a filler by at most 0.25.
\<close>

theorem C6_tree_y_bounds:
  assumes "\<forall>k. 0 \<le> rnd k \<and> rnd k < 1" and "p \<in> set (generateParticles rnd)"
  shows "- TREE_HEIGHT / 2 - 0.486 \<le> vy (initialPos p)
       \<and> vy (initialPos p) \<le> TREE_HEIGHT / 2 + 0.25"
proof -
  from generateParticles_cases [OF assms(2)] show ?thesis
  proof
    assume "\<exists>i < MAIN_COUNT. p = mainParticle rnd i (9 * i)"
    then obtain i where "i < MAIN_COUNT" "p = mainParticle rnd i (9 * i)" by blast
    then show ?thesis using main_y_bounds [OF assms(1)] by simp
  next
    assume "\<exists>k. p = fillerParticle rnd k"
    then obtain k where p: "p = fillerParticle rnd k" by blast
    have "- TREE_HEIGHT / 2 - 0.486 \<le> - TREE_HEIGHT / 2 - 0.25" by simp
    then show ?thesis
      unfolding p using filler_y_bounds [OF assms(1), of k] by linarith
  qed
qed

text \<open>The first filler particle under \<open>low_draws\<close> lies within the amended bounds.\<close>

theorem C6_tree_y_witness:
  "- TREE_HEIGHT / 2 - 0.486 \<le> vy (initialPos (generateParticles low_draws ! 1800))
   \<and> vy (initialPos (generateParticles low_draws ! 1800)) \<le> TREE_HEIGHT / 2 + 0.25"
proof -
  have "1800 < length (generateParticles low_draws)"
    by (simp add: generateParticles_length PARTICLE_COUNT_def)
  then have mem: "generateParticles low_draws ! 1800 \<in> set (generateParticles low_draws)"
    by (rule nth_mem)
  show ?thesis
    by (rule C6_tree_y_bounds [OF low_draws_range mem])
qed

subsection \<open>Layout resolver for photo panels\<close>

text \<open>
  C3 at a concrete frame: mode FOCUSED, active index 0, the panel of index 1 with tree slot
  (1, 2, 3) and scatter slot (4, 5, 6). The frame callback resolves the panel exactly as in
  ASSEMBLED: target position the tree slot and target scale 0.65, whereas in SCATTERED the
  target is the scatter slot with scale 1.
\<close>

theorem C3_unfocused_panel:
  "photoCloudTarget FOCUSED 0 1 \<lparr>vx = 1, vy = 2, vz = 3\<rparr> \<lparr>vx = 4, vy = 5, vz = 6\<rparr> camera 0
     = photoCloudTarget ASSEMBLED 0 1 \<lparr>vx = 1, vy = 2, vz = 3\<rparr> \<lparr>vx = 4, vy = 5, vz = 6\<rparr> camera 0
   \<and> targetPos (photoCloudTarget FOCUSED 0 1 \<lparr>vx = 1, vy = 2, vz = 3\<rparr> \<lparr>vx = 4, vy = 5, vz = 6\<rparr> camera 0)
     = \<lparr>vx = 1, vy = 2, vz = 3\<rparr>
   \<and> targetScale (photoCloudTarget FOCUSED 0 1 \<lparr>vx = 1, vy = 2, vz = 3\<rparr> \<lparr>vx = 4, vy = 5, vz = 6\<rparr> camera 0)
     = 0.65
   \<and> targetPos (photoCloudTarget SCATTERED 0 1 \<lparr>vx = 1, vy = 2, vz = 3\<rparr> \<lparr>vx = 4, vy = 5, vz = 6\<rparr> camera 0)
     = \<lparr>vx = 4, vy = 5, vz = 6\<rparr>
   \<and> targetScale (photoCloudTarget SCATTERED 0 1 \<lparr>vx = 1, vy = 2, vz = 3\<rparr> \<lparr>vx = 4, vy = 5, vz = 6\<rparr> camera 0)
     = 1"
  by (simp add: photoCloudTarget_def polaroidTarget_def Let_def)

end
